theory Spec2Isabelle
  imports Complex_Main "HOL-Library.Char_ord" "HOL-Library.List_Lexorder" "HOL-Library.Sublist"
begin

section \<open>Numbers of a float64 column\<close>

text \<open>
  A cell of a float64 column of the data frame. \<open>NaN\<close> is what pandas shows as a null cell;
  the two infinities are what numpy's division gives for a zero divisor. A finite value is
  modelled as the exact real number: rounding, overflow, underflow and the sign of zero of
  binary64 are not modelled, so every equation below between finite values is an equation
  of real arithmetic.
\<close>

datatype fnum = Num real | PosInf | NegInf | NaN

definition isfinite :: "fnum \<Rightarrow> bool" where
  "isfinite v = (case v of Num x \<Rightarrow> True | PosInf \<Rightarrow> False | NegInf \<Rightarrow> False | NaN \<Rightarrow> False)"

definition isna :: "fnum \<Rightarrow> bool" where
  "isna v = (v = NaN)"

text \<open>Elementwise \<open>/\<close>, \<open>-\<close> and \<open>*\<close> of two float64 values (IEEE 754 special values).\<close>

fun fdiv :: "fnum \<Rightarrow> fnum \<Rightarrow> fnum" where
  "fdiv NaN y = NaN"
| "fdiv x NaN = NaN"
| "fdiv (Num a) (Num b) =
     (if b \<noteq> 0 then Num (a / b)
      else if 0 < a then PosInf
      else if a < 0 then NegInf
      else NaN)"
| "fdiv (Num a) PosInf = Num 0"
| "fdiv (Num a) NegInf = Num 0"
| "fdiv PosInf (Num b) = (if 0 \<le> b then PosInf else NegInf)"
| "fdiv NegInf (Num b) = (if 0 \<le> b then NegInf else PosInf)"
| "fdiv PosInf PosInf = NaN"
| "fdiv PosInf NegInf = NaN"
| "fdiv NegInf PosInf = NaN"
| "fdiv NegInf NegInf = NaN"

fun fsub :: "fnum \<Rightarrow> fnum \<Rightarrow> fnum" where
  "fsub NaN y = NaN"
| "fsub x NaN = NaN"
| "fsub (Num a) (Num b) = Num (a - b)"
| "fsub (Num a) PosInf = NegInf"
| "fsub (Num a) NegInf = PosInf"
| "fsub PosInf (Num b) = PosInf"
| "fsub NegInf (Num b) = NegInf"
| "fsub PosInf PosInf = NaN"
| "fsub PosInf NegInf = PosInf"
| "fsub NegInf PosInf = NegInf"
| "fsub NegInf NegInf = NaN"

fun fmul :: "fnum \<Rightarrow> fnum \<Rightarrow> fnum" where
  "fmul NaN y = NaN"
| "fmul x NaN = NaN"
| "fmul (Num a) (Num b) = Num (a * b)"
| "fmul (Num a) PosInf = (if 0 < a then PosInf else if a < 0 then NegInf else NaN)"
| "fmul (Num a) NegInf = (if 0 < a then NegInf else if a < 0 then PosInf else NaN)"
| "fmul PosInf (Num b) = (if 0 < b then PosInf else if b < 0 then NegInf else NaN)"
| "fmul NegInf (Num b) = (if 0 < b then NegInf else if b < 0 then PosInf else NaN)"
| "fmul PosInf PosInf = PosInf"
| "fmul PosInf NegInf = NegInf"
| "fmul NegInf PosInf = NegInf"
| "fmul NegInf NegInf = PosInf"

section \<open>The table\<close>

text \<open>
  A row of the loaded table after \<open>df['date'] = pd.to_datetime(df['date'])\<close>: the columns
  the upload help text lists. \<open>date\<close> is a pandas timestamp, nanoseconds since the epoch;
  the four prices are finite numbers. The field \<open>open_price\<close> is the column \<open>open\<close>.
\<close>

record price_row =
  coin_id :: string
  symbol :: string
  timestamp :: string
  date :: int
  open_price :: real
  high :: real
  low :: real
  close :: real

text \<open>A row once the four derived columns are added (lines 42 to 45 of app.py).\<close>

record derived_row = price_row +
  change_pct :: fnum
  volatility_7d :: fnum
  high_low_range :: real
  typical_price :: real

section \<open>Metric Deriver\<close>

text \<open>\<open>Series.shift(1)\<close>: every value moves one row down, the first row becomes null.\<close>

definition shift :: "fnum list \<Rightarrow> fnum list" where
  "shift xs = take (length xs) (NaN # xs)"

text \<open>\<open>Series.pct_change()\<close> on a column without nulls: \<open>data / data.shift(1) - 1\<close>.\<close>

definition pct_change :: "fnum list \<Rightarrow> fnum list" where
  "pct_change xs = map (\<lambda>(x, p). fsub (fdiv x p) (Num 1)) (zip xs (shift xs))"

text \<open>
  \<open>rolling(w).std()\<close>: the window at row \<open>i\<close> is the rows \<open>i - w + 1\<close> to \<open>i\<close> that exist.
  Infinite values count as null; with fewer than \<open>min_periods = w\<close> observations left the
  result is null, otherwise it is the standard deviation with \<open>ddof = 1\<close>.
\<close>

fun finite_values :: "fnum list \<Rightarrow> real list" where
  "finite_values [] = []"
| "finite_values (Num v # xs) = v # finite_values xs"
| "finite_values (x # xs) = finite_values xs"

definition mean :: "real list \<Rightarrow> real" where
  "mean xs = sum_list xs / real (length xs)"

definition sample_std :: "real list \<Rightarrow> real" where
  "sample_std xs = sqrt (sum_list (map (\<lambda>x. (x - mean xs)\<^sup>2) xs) / (real (length xs) - 1))"

definition window :: "nat \<Rightarrow> 'a list \<Rightarrow> nat \<Rightarrow> 'a list" where
  "window w xs i = drop (Suc i - w) (take (Suc i) xs)"

definition rolling_std :: "nat \<Rightarrow> fnum list \<Rightarrow> fnum list" where
  "rolling_std w xs =
     map (\<lambda>i. let obs = finite_values (window w xs i)
               in if length obs < w then NaN else Num (sample_std obs))
         [0..<length xs]"

definition close_col :: "'a price_row_scheme list \<Rightarrow> fnum list" where
  "close_col df = map (\<lambda>r. Num (close r)) df"

definition times100 :: "fnum list \<Rightarrow> fnum list" where
  "times100 xs = map (\<lambda>v. fmul v (Num 100)) xs"

definition change_pct_col :: "price_row list \<Rightarrow> fnum list" where
  "change_pct_col df = times100 (pct_change (close_col df))"

definition volatility_7d_col :: "price_row list \<Rightarrow> fnum list" where
  "volatility_7d_col df = times100 (rolling_std 7 (pct_change (close_col df)))"

text \<open>
  Lines 42 to 45, on the table as line 41 leaves it (sorted by \<open>date\<close>): the rows keep their
  order and each gets its four derived cells.
\<close>

definition derive :: "price_row list \<Rightarrow> derived_row list" where
  "derive df =
     map (\<lambda>(r, c, v).
            \<lparr> coin_id = coin_id r, symbol = symbol r, timestamp = timestamp r, date = date r,
              open_price = open_price r, high = high r, low = low r, close = close r,
              change_pct = c, volatility_7d = v,
              high_low_range = high r - low r,
              typical_price = (high r + low r + close r) / 3 \<rparr>)
         (zip df (zip (change_pct_col df) (volatility_7d_col df)))"

section \<open>Sidebar and Filter Engine\<close>

text \<open>\<open>str.upper()\<close> on the ASCII letters; other characters are left as they are.\<close>

definition upper_char :: "char \<Rightarrow> char" where
  "upper_char c =
     (if CHR ''a'' \<le> c \<and> c \<le> CHR ''z'' then char_of (of_char c - (32 :: nat)) else c)"

definition str_upper :: "string \<Rightarrow> string" where
  "str_upper s = map upper_char s"

text \<open>\<open>Series.unique()\<close>: the distinct values in the order of their first appearance.\<close>

primrec unique :: "'a list \<Rightarrow> 'a list" where
  "unique [] = []"
| "unique (x # xs) = x # filter (\<lambda>y. y \<noteq> x) (unique xs)"

text \<open>Line 53: the options of the coin selector.\<close>

definition coins :: "'a price_row_scheme list \<Rightarrow> string list" where
  "coins df = unique (map (\<lambda>r. str_upper (symbol r)) df)"

text \<open>\<open>.dt.date\<close>: the calendar day of a timestamp, as a day number; the time of day is dropped.\<close>

definition ns_per_day :: int where
  "ns_per_day = 86400000000000"

definition dt_date :: "int \<Rightarrow> int" where
  "dt_date t = t div ns_per_day"

datatype error = IndexError

text \<open>
  Lines 67 to 72. \<open>selected_coins\<close> is what the multiselect returned, \<open>date_range\<close> the
  tuple of day numbers the date input returned: two days, one day while the user is still
  picking the end of the range, or none. \<open>date_range[0]\<close> on the empty tuple raises.
\<close>

definition filter_data ::
  "'a price_row_scheme list \<Rightarrow> string list \<Rightarrow> int list \<Rightarrow> error + 'a price_row_scheme list" where
  "filter_data df selected_coins date_range =
     (case date_range of
        [] \<Rightarrow> Inl IndexError
      | start # rest \<Rightarrow>
          Inr (filter (\<lambda>r.
                 str_upper (symbol r) \<in> set (map str_upper selected_coins) \<and>
                 start \<le> dt_date (date r) \<and>
                 (if 1 < length date_range then dt_date (date r) \<le> date_range ! 1 else True))
               df))"

section \<open>Aggregator\<close>

text \<open>
  Line 79: \<open>data.groupby('symbol')\<close> makes one group per distinct raw symbol, the groups in
  ascending order of the key, each group holding its rows in table order;
  \<open>apply(lambda x: x.iloc[-1])\<close> keeps the last row of every group.
\<close>

definition groupby_symbol :: "derived_row list \<Rightarrow> (string \<times> derived_row list) list" where
  "groupby_symbol data =
     map (\<lambda>k. (k, filter (\<lambda>r. symbol r = k) data)) (sort (remdups (map symbol data)))"

definition latest :: "derived_row list \<Rightarrow> (string \<times> derived_row) list" where
  "latest data = map (\<lambda>(k, g). (k, last g)) (groupby_symbol data)"

section \<open>Presentation\<close>

text \<open>
  What \<open>to_csv(index=False)\<close> writes, before it is text: the header line and one list of
  cells per row. The columns are those of the frame it is called on.
\<close>

datatype cell = Text string | Stamp int | Float fnum

record csv =
  header :: "string list"
  body :: "cell list list"

definition input_columns :: "string list" where
  "input_columns =
     [''coin_id'', ''symbol'', ''timestamp'', ''date'', ''open'', ''high'', ''low'', ''close'']"

definition frame_columns :: "string list" where
  "frame_columns =
     input_columns @ [''change_pct'', ''volatility_7d'', ''high_low_range'', ''typical_price'']"

definition csv_cells :: "derived_row \<Rightarrow> cell list" where
  "csv_cells r =
     [Text (coin_id r), Text (symbol r), Text (timestamp r), Stamp (date r),
      Float (Num (open_price r)), Float (Num (high r)), Float (Num (low r)),
      Float (Num (close r)), Float (change_pct r), Float (volatility_7d r),
      Float (Num (high_low_range r)), Float (Num (typical_price r))]"

definition to_csv :: "derived_row list \<Rightarrow> csv" where
  "to_csv data = \<lparr> header = frame_columns, body = map csv_cells data \<rparr>"

text \<open>
  The elements a render pass puts on the page from line 74 on. A chart carries the rows it
  plots; the formatting of numbers into text is left to the display.
\<close>

datatype widget =
    Warning string
  | Metric string real fnum
  | Markdown string
  | Subheader string
  | Candlestick string "derived_row list"
  | LineChart string string "derived_row list"
  | BarChart string string "derived_row list"
  | Dataframe "string list" "derived_row list"
  | DownloadButton string csv string string
  | Caption string

fun is_view :: "widget \<Rightarrow> bool" where
  "is_view (Metric l v d) = True"
| "is_view (Candlestick n rs) = True"
| "is_view (LineChart t y rs) = True"
| "is_view (BarChart t y rs) = True"
| "is_view (Dataframe cs rs) = True"
| "is_view w = False"

fun is_metric :: "widget \<Rightarrow> bool" where
  "is_metric (Metric l v d) = True"
| "is_metric w = False"

text \<open>Lines 80 to 90: a card for each of the first four rows of \<open>latest\<close>.\<close>

definition metric_cards :: "derived_row list \<Rightarrow> widget list" where
  "metric_cards data =
     map (\<lambda>(s, row). Metric (str_upper s) (close row) (change_pct row))
         (take 4 (latest data))"

text \<open>Lines 96 to 113: one candlestick chart per upper-cased symbol.\<close>

definition candlesticks :: "derived_row list \<Rightarrow> widget list" where
  "candlesticks data =
     map (\<lambda>coin. Candlestick coin (filter (\<lambda>r. str_upper (symbol r) = coin) data))
         (coins data)"

definition display_cols :: "string list" where
  "display_cols =
     [''date'', ''symbol'', ''open'', ''high'', ''low'', ''close'', ''change_pct'',
      ''volatility_7d'']"

definition render_views :: "derived_row list \<Rightarrow> widget list" where
  "render_views data =
     metric_cards data @
     [Markdown ''---'', Subheader ''Candlestick Chart''] @
     candlesticks data @
     [Subheader ''Price Trend Comparison'',
      LineChart ''Closing Price Over Time'' ''close'' data,
      Subheader ''7-Day Rolling Volatility'',
      LineChart ''Volatility (7-day rolling std of returns)'' ''volatility_7d'' data,
      Subheader ''Daily High-Low Range'',
      BarChart ''Daily Price Range (High - Low)'' ''high_low_range'' data,
      Markdown ''---'',
      Subheader ''Detailed Price Data'',
      Dataframe display_cols data,
      DownloadButton ''Download filtered data as CSV'' (to_csv data)
        ''crypto_price_data.csv'' ''text/csv'',
      Caption (''Built with Streamlit '' @ [CHR 0xE2, CHR 0x80, CHR 0xA2] @
        '' Data updates daily'')]"

text \<open>
  A render pass from the filter on (lines 66 to 168): it raises, or \<open>st.stop()\<close> ends it
  after the warning, or it runs to the end of the script.
\<close>

datatype outcome = Raised error | Stopped "widget list" | Finished "widget list"

definition render_pass :: "derived_row list \<Rightarrow> string list \<Rightarrow> int list \<Rightarrow> outcome" where
  "render_pass df selected_coins date_range =
     (case filter_data df selected_coins date_range of
        Inl e \<Rightarrow> Raised e
      | Inr data \<Rightarrow>
          if data = [] then Stopped [Warning ''No data for selected filters.'']
          else Finished (render_views data))"

section \<open>Example tables\<close>

definition day :: "int \<Rightarrow> int" where
  "day n = n * ns_per_day"

definition mk_row :: "string \<Rightarrow> int \<Rightarrow> real \<Rightarrow> price_row" where
  "mk_row s d c =
     \<lparr> coin_id = ''coin'', symbol = s, timestamp = ''0'', date = day d,
       open_price = c, high = c, low = c, close = c \<rparr>"

definition from_closes :: "real list \<Rightarrow> price_row list" where
  "from_closes cs = map (\<lambda>(k, c). mk_row ''BTC'' (int k) c) (enumerate 0 cs)"

definition mixed_case :: "price_row list" where
  "mixed_case = [mk_row ''btc'' 1 100, mk_row ''BTC'' 2 105, mk_row ''ETH'' 2 50]"

section \<open>Properties of the Metric Deriver\<close>

lemma length_shift: "length (shift xs) = length xs"
  by (simp add: shift_def)

lemma length_pct_change: "length (pct_change xs) = length xs"
  by (simp add: pct_change_def length_shift)

lemma length_rolling_std: "length (rolling_std w xs) = length xs"
  by (simp add: rolling_std_def)

lemma length_change_pct_col: "length (change_pct_col df) = length df"
  by (simp add: change_pct_col_def times100_def length_pct_change close_col_def)

lemma length_volatility_7d_col: "length (volatility_7d_col df) = length df"
  by (simp add: volatility_7d_col_def times100_def length_rolling_std length_pct_change
      close_col_def)

lemma length_derive: "length (derive df) = length df"
  by (simp add: derive_def length_change_pct_col length_volatility_7d_col)

lemma derive_nth:
  assumes "i < length df"
  shows "derive df ! i =
     \<lparr> coin_id = coin_id (df ! i), symbol = symbol (df ! i), timestamp = timestamp (df ! i),
       date = date (df ! i), open_price = open_price (df ! i), high = high (df ! i),
       low = low (df ! i), close = close (df ! i),
       change_pct = change_pct_col df ! i, volatility_7d = volatility_7d_col df ! i,
       high_low_range = high (df ! i) - low (df ! i),
       typical_price = (high (df ! i) + low (df ! i) + close (df ! i)) / 3 \<rparr>"
  using assms
  by (simp add: derive_def length_change_pct_col length_volatility_7d_col)

lemma shift_nth:
  assumes "i < length xs"
  shows "shift xs ! i = (if i = 0 then NaN else xs ! (i - 1))"
  using assms by (cases i) (simp_all add: shift_def)

lemma pct_change_nth:
  assumes "i < length xs"
  shows "pct_change xs ! i =
     (if i = 0 then fsub (fdiv (xs ! 0) NaN) (Num 1)
      else fsub (fdiv (xs ! i) (xs ! (i - 1))) (Num 1))"
  using assms by (simp add: pct_change_def length_shift shift_nth)

lemma fdiv_NaN_right: "fdiv x NaN = NaN"
  by (cases x) simp_all

lemma pct_change_head:
  assumes "xs \<noteq> []"
  shows "pct_change xs ! 0 = NaN"
  using assms by (simp add: pct_change_nth fdiv_NaN_right)

lemma change_pct_col_nth:
  assumes "i < length df"
  shows "change_pct_col df ! i =
     (if i = 0 then NaN
      else fmul (fsub (fdiv (Num (close (df ! i))) (Num (close (df ! (i - 1))))) (Num 1))
             (Num 100))"
  using assms
  by (simp add: change_pct_col_def times100_def length_pct_change close_col_def
      pct_change_nth fdiv_NaN_right)

text \<open>
  The formula of the specification and the one pandas evaluates agree on every pair of
  finite closes, a zero divisor included.
\<close>

lemma pct_formula:
  "fmul (fsub (fdiv (Num c) (Num p)) (Num 1)) (Num 100) =
   fmul (fdiv (fsub (Num c) (Num p)) (Num p)) (Num 100)"
  by (simp add: field_simps)

lemma close_derive_nth: "i < length df \<Longrightarrow> close (derive df ! i) = close (df ! i)"
  by (simp add: derive_nth)

lemma change_pct_derive_nth:
  "i < length df \<Longrightarrow> change_pct (derive df ! i) = change_pct_col df ! i"
  by (simp add: derive_nth)

lemma volatility_7d_derive_nth:
  "i < length df \<Longrightarrow> volatility_7d (derive df ! i) = volatility_7d_col df ! i"
  by (simp add: derive_nth)

lemmas example_simps =
  derive_def mk_row_def change_pct_col_def volatility_7d_col_def times100_def pct_change_def
  shift_def close_col_def rolling_std_def window_def day_def ns_per_day_def from_closes_def

text \<open>
  C1. In the derived table the first row's \<open>change_pct\<close> is null, and every later row's
  \<open>change_pct\<close> is \<open>(close[i] - close[i-1]) / close[i-1] * 100\<close>, where row \<open>i - 1\<close> is the
  row just before it in the table, whatever its symbol. This holds for every table, so for
  every table sorted by date.
\<close>

theorem change_pct_spec:
  assumes "i < length df"
  shows "change_pct (derive df ! i) =
     (if i = 0 then NaN
      else fmul (fdiv (fsub (Num (close (derive df ! i))) (Num (close (derive df ! (i - 1)))))
                   (Num (close (derive df ! (i - 1)))))
             (Num 100))"
proof (cases "i = 0")
  case True
  with assms show ?thesis by (simp add: change_pct_derive_nth change_pct_col_nth)
next
  case False
  with assms have "i - 1 < length df" by simp
  with assms False show ?thesis
    by (simp only: change_pct_derive_nth close_derive_nth change_pct_col_nth pct_formula if_False)
qed

theorem change_pct_spec_witness:
  "length (from_closes [100, 110, 99]) = 3 \<and>
   map close (derive (from_closes [100, 110, 99])) = [100, 110, 99] \<and>
   change_pct (derive (from_closes [100, 110, 99]) ! 0) = NaN \<and>
   change_pct (derive (from_closes [100, 110, 99]) ! 1) = Num 10 \<and>
   change_pct (derive (from_closes [100, 110, 99]) ! 2) = Num (- 10)"
  using change_pct_spec [of 0 "from_closes [100, 110, 99]"]
    change_pct_spec [of 1 "from_closes [100, 110, 99]"]
    change_pct_spec [of 2 "from_closes [100, 110, 99]"]
  by (simp add: example_simps)

text \<open>
  C10. The division by the preceding close is not guarded: where the preceding close is
  zero, \<open>change_pct\<close> is not a finite number (an infinity with the sign of the row's own
  close, or null when that is zero as well). Every row after a non-zero close has the
  finite percentage, whatever zeros the table has elsewhere.
\<close>

theorem change_pct_zero_close:
  assumes "i < length df" and "0 < i" and "close (derive df ! (i - 1)) = 0"
  shows "\<not> isfinite (change_pct (derive df ! i)) \<and>
     change_pct (derive df ! i) =
       (if 0 < close (derive df ! i) then PosInf
        else if close (derive df ! i) < 0 then NegInf else NaN) \<and>
     (\<forall>j. 0 < j \<and> j < length df \<and> close (derive df ! (j - 1)) \<noteq> 0 \<longrightarrow>
        change_pct (derive df ! j) =
          Num ((close (derive df ! j) - close (derive df ! (j - 1))) /
               close (derive df ! (j - 1)) * 100))"
proof -
  from assms have p: "i - 1 < length df" by simp
  from assms p have z: "close (df ! (i - 1)) = 0" by (simp add: close_derive_nth)
  from assms have v: "change_pct (derive df ! i) =
       (if 0 < close (derive df ! i) then PosInf
        else if close (derive df ! i) < 0 then NegInf else NaN)"
    by (simp add: change_pct_derive_nth close_derive_nth change_pct_col_nth z)
  have "\<not> isfinite (change_pct (derive df ! i))"
    by (simp add: v isfinite_def)
  moreover have "change_pct (derive df ! j) =
          Num ((close (derive df ! j) - close (derive df ! (j - 1))) /
               close (derive df ! (j - 1)) * 100)"
    if "0 < j \<and> j < length df \<and> close (derive df ! (j - 1)) \<noteq> 0" for j
  proof -
    from that have q: "j - 1 < length df" by arith
    from that q show ?thesis
      by (simp add: change_pct_derive_nth close_derive_nth change_pct_col_nth field_simps)
  qed
  ultimately show ?thesis using v by blast
qed

theorem change_pct_zero_close_witness:
  "map close (derive (from_closes [0, 5, 10])) = [0, 5, 10] \<and>
   \<not> isfinite (change_pct (derive (from_closes [0, 5, 10]) ! 1)) \<and>
   change_pct (derive (from_closes [0, 5, 10]) ! 1) = PosInf \<and>
   change_pct (derive (from_closes [0, 5, 10]) ! 2) = Num 100"
proof -
  have l: "(1::nat) < length (from_closes [0, 5, 10])" by (simp add: from_closes_def)
  have z: "close (derive (from_closes [0, 5, 10]) ! (1 - 1)) = 0" by (simp add: example_simps)
  have c: "0 < (2::nat) \<and> 2 < length (from_closes [0, 5, 10]) \<and>
     close (derive (from_closes [0, 5, 10]) ! (2 - 1)) \<noteq> 0" by (simp add: example_simps)
  from change_pct_zero_close [OF l _ z] c
  show ?thesis by (simp add: example_simps)
qed

section \<open>Rolling volatility\<close>


lemma length_finite_values_le: "length (finite_values xs) \<le> length xs"
  by (induction xs rule: finite_values.induct) simp_all

lemma finite_values_all:
  "list_all isfinite xs \<longleftrightarrow> length (finite_values xs) = length xs"
proof (induction xs)
  case Nil
  show ?case by simp
next
  case (Cons x xs)
  then show ?case
    using length_finite_values_le [of xs] by (cases x) (simp_all add: isfinite_def)
qed

lemma finite_values_times100:
  "finite_values (times100 xs) = map (\<lambda>x. x * 100) (finite_values xs)"
  by (induction xs rule: finite_values.induct) (simp_all add: times100_def)

lemma length_times100: "length (times100 xs) = length xs"
  by (simp add: times100_def)

lemma list_all_isfinite_times100:
  "list_all isfinite (times100 xs) = list_all isfinite xs"
  by (simp add: finite_values_all finite_values_times100 length_times100)

lemma window_times100: "window w (times100 xs) i = times100 (window w xs i)"
  by (simp add: window_def times100_def take_map drop_map)

lemma mean_scale: "mean (map (\<lambda>x. x * 100) xs) = mean xs * 100"
  by (simp add: mean_def sum_list_mult_const)

lemma sample_std_scale: "sample_std (map (\<lambda>x. x * 100) xs) = sample_std xs * 100"
proof -
  have "sum_list (map (\<lambda>x. (x * 100 - mean xs * 100)\<^sup>2) xs) =
      sum_list (map (\<lambda>x. (x - mean xs)\<^sup>2 * 10000) xs)"
    by (rule arg_cong [where f = sum_list], rule map_cong) (simp_all add: power2_eq_square algebra_simps)
  also have "\<dots> = sum_list (map (\<lambda>x. (x - mean xs)\<^sup>2) xs) * 10000"
    by (simp add: sum_list_mult_const)
  finally have s: "sum_list (map (\<lambda>x. (x * 100 - mean xs * 100)\<^sup>2) xs) =
      sum_list (map (\<lambda>x. (x - mean xs)\<^sup>2) xs) * 10000" .
  have r: "sqrt 10000 = 100"
    using real_sqrt_abs [of 100] by simp
  show ?thesis
    by (simp add: sample_std_def mean_scale comp_def s real_sqrt_mult r real_sqrt_divide)
qed

lemma rolling_std_nth:
  assumes "i < length xs"
  shows "rolling_std w xs ! i =
     (if length (finite_values (window w xs i)) < w then NaN
      else Num (sample_std (finite_values (window w xs i))))"
  using assms by (simp add: rolling_std_def Let_def)

lemma volatility_7d_col_nth:
  assumes "i < length df"
  shows "volatility_7d_col df ! i =
     (if length (finite_values (window 7 (pct_change (close_col df)) i)) < 7 then NaN
      else Num (sample_std (finite_values (window 7 (pct_change (close_col df)) i)) * 100))"
  using assms
  by (simp add: volatility_7d_col_def times100_def length_rolling_std length_pct_change
      close_col_def rolling_std_nth)

lemma window_trailing:
  assumes "i < length xs"
  shows "window w xs i = map (\<lambda>k. xs ! k) [Suc i - w..<Suc i]"
proof -
  have "take (Suc i) xs = map (\<lambda>k. xs ! k) [0..<Suc i]"
    using assms by (metis Suc_leI map_nth take_map take_upt add_0)
  then show ?thesis
    by (simp add: window_def drop_map del: upt_Suc)
qed

lemma length_window: "i < length xs \<Longrightarrow> length (window w xs i) = min w (Suc i)"
  by (simp add: window_trailing del: upt_Suc)

lemma window_early:
  assumes "i < length xs" and "i < 7" and "xs ! 0 = NaN"
  shows "length (finite_values (window 7 xs i)) < 7"
proof -
  from assms obtain ys where xs: "xs = NaN # ys" by (cases xs) auto
  have "window 7 xs i = NaN # take i ys"
    using assms by (simp add: window_def xs)
  then have "length (finite_values (window 7 xs i)) \<le> length (take i ys)"
    using length_finite_values_le [of "take i ys"] by simp
  with assms show ?thesis by simp
qed

lemma change_pct_col_times100: "change_pct_col df = times100 (pct_change (close_col df))"
  by (simp add: change_pct_col_def)

lemma map_change_pct_derive: "map change_pct (derive df) = change_pct_col df"
  by (rule nth_equalityI) (simp_all add: length_derive length_change_pct_col change_pct_derive_nth)

lemma pct_change_close_col_head:
  assumes "i < length df"
  shows "pct_change (close_col df) ! 0 = NaN"
proof -
  from assms have "close_col df \<noteq> []" by (auto simp: close_col_def)
  then show ?thesis by (rule pct_change_head)
qed

text \<open>
  C2, as the code has it. \<open>volatility_7d\<close> is null in each of the first seven rows (row 6
  included: its window holds the null \<open>change_pct\<close> of row 0, so only six observations).
  From row 7 on it is the sample standard deviation of the seven trailing \<open>change_pct\<close>
  values of rows \<open>i - 6\<close> to \<open>i\<close> when all seven are finite, and null otherwise.
\<close>

theorem volatility_7d_spec:
  assumes "i < length df"
  shows "volatility_7d (derive df ! i) =
     (if i < 7 then NaN
      else if list_all isfinite (map (\<lambda>k. change_pct (derive df ! k)) [i - 6..<Suc i])
        then Num (sample_std
               (finite_values (map (\<lambda>k. change_pct (derive df ! k)) [i - 6..<Suc i])))
        else NaN)"
proof -
  let ?pc = "pct_change (close_col df)"
  have len: "i < length ?pc" using assms by (simp add: length_pct_change close_col_def)
  have v: "volatility_7d (derive df ! i) =
     (if length (finite_values (window 7 ?pc i)) < 7 then NaN
      else Num (sample_std (finite_values (window 7 ?pc i)) * 100))"
    using assms by (simp add: volatility_7d_derive_nth volatility_7d_col_nth)
  show ?thesis
  proof (cases "i < 7")
    case True
    have "length (finite_values (window 7 ?pc i)) < 7"
      using len True pct_change_close_col_head [OF assms] by (rule window_early)
    with True v show ?thesis by simp
  next
    case False
    have ilen: "i < length (map change_pct (derive df))"
      using assms by (simp add: length_derive)
    have "map (\<lambda>k. change_pct (derive df ! k)) [i - 6..<Suc i] =
        map (\<lambda>k. map change_pct (derive df) ! k) [Suc i - 7..<Suc i]"
      using assms by (simp add: length_derive del: upt_Suc)
    also have "\<dots> = window 7 (map change_pct (derive df)) i"
      using ilen by (rule window_trailing [symmetric])
    also have "\<dots> = times100 (window 7 ?pc i)"
      by (simp add: map_change_pct_derive change_pct_col_times100 window_times100)
    finally have w: "map (\<lambda>k. change_pct (derive df ! k)) [i - 6..<Suc i] =
        times100 (window 7 ?pc i)" .
    have l7: "length (window 7 ?pc i) = 7"
      using len False by (simp add: length_window)
    show ?thesis
    proof (cases "list_all isfinite (window 7 ?pc i)")
      case True
      then have "length (finite_values (window 7 ?pc i)) = 7"
        by (simp add: finite_values_all l7)
      with True False v show ?thesis
        by (simp add: w list_all_isfinite_times100 finite_values_times100 sample_std_scale
            del: upt_Suc)
    next
      case nf: False
      then have "length (finite_values (window 7 ?pc i)) \<noteq> 7"
        by (simp add: finite_values_all l7)
      with length_finite_values_le [of "window 7 ?pc i"]
      have "length (finite_values (window 7 ?pc i)) < 7" by (simp add: l7)
      with nf False v show ?thesis
        by (simp add: w list_all_isfinite_times100 del: upt_Suc)
    qed
  qed
qed

text \<open>
  C2 as stated fails at row 6: seven rows with non-zero closes give six finite changes, and
  the volatility of row 6 is null, not a standard deviation.
\<close>

theorem volatility_7d_counterexample:
  "length (from_closes [1, 2, 4, 8, 16, 32, 64]) = 7 \<and>
   map change_pct (derive (from_closes [1, 2, 4, 8, 16, 32, 64])) =
     [NaN, Num 100, Num 100, Num 100, Num 100, Num 100, Num 100] \<and>
   volatility_7d (derive (from_closes [1, 2, 4, 8, 16, 32, 64]) ! 6) = NaN"
  by (simp add: example_simps)

theorem volatility_7d_spec_witness:
  "length (from_closes [1, 2, 4, 8, 16, 32, 64, 64]) = 8 \<and>
   map change_pct (derive (from_closes [1, 2, 4, 8, 16, 32, 64, 64])) =
     [NaN, Num 100, Num 100, Num 100, Num 100, Num 100, Num 100, Num 0] \<and>
   volatility_7d (derive (from_closes [1, 2, 4, 8, 16, 32, 64, 64]) ! 3) = NaN \<and>
   volatility_7d (derive (from_closes [1, 2, 4, 8, 16, 32, 64, 64]) ! 7) =
     Num (sample_std [100, 100, 100, 100, 100, 100, 0])"
proof -
  have c: "change_pct_col (from_closes [1, 2, 4, 8, 16, 32, 64, 64]) =
     [NaN, Num 100, Num 100, Num 100, Num 100, Num 100, Num 100, Num 0]"
    by (simp add: from_closes_def mk_row_def change_pct_col_def
        times100_def pct_change_def shift_def close_col_def)
  have l: "length (from_closes [1, 2, 4, 8, 16, 32, 64, 64]) = 8"
    by (simp add: from_closes_def)
  have w: "map (\<lambda>k. change_pct (derive (from_closes [1, 2, 4, 8, 16, 32, 64, 64]) ! k))
      [7 - 6..<Suc 7] = [Num 100, Num 100, Num 100, Num 100, Num 100, Num 100, Num 0]"
    by (simp add: upt_conv_Cons change_pct_derive_nth l c)
  from volatility_7d_spec [of 7 "from_closes [1, 2, 4, 8, 16, 32, 64, 64]"]
    volatility_7d_spec [of 3 "from_closes [1, 2, 4, 8, 16, 32, 64, 64]"]
  show ?thesis
    unfolding w by (simp add: l map_change_pct_derive c isfinite_def)
qed

section \<open>Properties of the Filter Engine\<close>

lemma upper_char_idem: "upper_char (upper_char c) = upper_char c"
  by (simp add: upper_char_def less_eq_char_def) arith

lemma str_upper_idem: "str_upper (str_upper s) = str_upper s"
  by (simp add: str_upper_def upper_char_idem)

lemma set_unique: "set (unique xs) = set xs"
  by (induction xs) auto

lemma distinct_unique: "distinct (unique xs)"
  by (induction xs) (auto simp: set_unique)

lemma coins_upper: "c \<in> set (coins df) \<Longrightarrow> str_upper c = c"
  by (auto simp: coins_def set_unique str_upper_idem)

lemma str_upper_examples:
  "str_upper ''btc'' = ''BTC''" "str_upper ''BTC'' = ''BTC''"
  "str_upper ''ETH'' = ''ETH''" "str_upper ''ZZZ'' = ''ZZZ''"
  by code_simp+

lemma dt_date_day: "dt_date (day n) = n"
  by (simp add: dt_date_def day_def ns_per_day_def)

lemma dt_date_example: "dt_date (day 3 + 5) = 3"
  by (simp add: dt_date_def day_def ns_per_day_def)

lemma filter_data_two:
  "filter_data df S [a, b] =
     Inr (filter (\<lambda>r. str_upper (symbol r) \<in> str_upper ` set S \<and>
                     a \<le> dt_date (date r) \<and> dt_date (date r) \<le> b) df)"
  by (simp add: filter_data_def)

lemma filter_data_one:
  "filter_data df S [a] =
     Inr (filter (\<lambda>r. str_upper (symbol r) \<in> str_upper ` set S \<and> a \<le> dt_date (date r)) df)"
  by (simp add: filter_data_def)

lemma image_upper_fixed:
  assumes "\<forall>c\<in>set S. str_upper c = c"
  shows "str_upper ` set S = set S"
  using assms by (auto simp: image_iff)

text \<open>
  C3. With a two-ended date range \<open>[a, b]\<close> the filter returns exactly the rows whose
  upper-cased symbol matches the selection and whose calendar day lies in \<open>[a, b]\<close>, in
  table order. The selection is upper-cased too; for a selection of upper-cased symbols, as
  the selector's options are, this is membership in \<open>S\<close> itself. The output has at most
  as many rows as the input and is a subsequence of it.
\<close>

theorem filter_two_ended:
  "\<exists>out. filter_data df S [a, b] = Inr out \<and>
     out = filter (\<lambda>r. str_upper (symbol r) \<in> str_upper ` set S \<and>
                        a \<le> dt_date (date r) \<and> dt_date (date r) \<le> b) df \<and>
     ((\<forall>c\<in>set S. str_upper c = c) \<longrightarrow>
        out = filter (\<lambda>r. str_upper (symbol r) \<in> set S \<and>
                           a \<le> dt_date (date r) \<and> dt_date (date r) \<le> b) df) \<and>
     length out \<le> length df \<and> subseq out df"
  by (simp add: filter_data_two image_upper_fixed)

theorem filter_two_ended_witness:
  "set [''BTC''] \<subseteq> set (coins (derive mixed_case)) \<and> str_upper ''BTC'' = ''BTC'' \<and>
   filter_data (derive mixed_case) [''BTC''] [1, 1] =
     Inr (filter (\<lambda>r. str_upper (symbol r) \<in> set [''BTC''] \<and>
                     1 \<le> dt_date (date r) \<and> dt_date (date r) \<le> 1) (derive mixed_case)) \<and>
   map symbol (filter (\<lambda>r. str_upper (symbol r) \<in> set [''BTC''] \<and>
                     1 \<le> dt_date (date r) \<and> dt_date (date r) \<le> 1) (derive mixed_case)) =
     [''btc'']"
  using filter_two_ended [of "derive mixed_case" "[''BTC'']" 1 1]
  by (simp add: example_simps mixed_case_def coins_def str_upper_examples dt_date_def)

text \<open>
  C7. With a date range of one day only, no end bound is applied: the rows are filtered
  by symbol and by the start day alone, and every matching row on the start day is kept.
\<close>

theorem filter_single_date:
  "\<exists>out. filter_data df S [a] = Inr out \<and>
     out = filter (\<lambda>r. str_upper (symbol r) \<in> str_upper ` set S \<and> a \<le> dt_date (date r)) df \<and>
     (\<forall>r\<in>set df. str_upper (symbol r) \<in> str_upper ` set S \<and> dt_date (date r) = a
        \<longrightarrow> r \<in> set out)"
  by (simp add: filter_data_one)

theorem filter_single_date_witness:
  "map symbol (derive mixed_case) = [''btc'', ''BTC'', ''ETH''] \<and>
   map (\<lambda>r. dt_date (date r)) (derive mixed_case) = [1, 2, 2] \<and>
   (\<exists>out. filter_data (derive mixed_case) [''BTC''] [1] = Inr out \<and>
      map symbol out = [''btc'', ''BTC''])"
  using filter_single_date [of "derive mixed_case" "[''BTC'']" 1]
  by (simp add: example_simps mixed_case_def str_upper_examples dt_date_def)

text \<open>
  C8. Filtering the filtered table again with the same selection and date range gives the
  same table (with an empty date range the filter raises and there is nothing to filter
  again).
\<close>

theorem filter_idempotent:
  "(date_range = [] \<longrightarrow> filter_data df S date_range = Inl IndexError) \<and>
   (date_range \<noteq> [] \<longrightarrow>
      (\<exists>data. filter_data df S date_range = Inr data \<and>
         filter_data data S date_range = Inr data))"
  by (cases date_range) (simp_all add: filter_data_def)

theorem filter_idempotent_witness:
  "\<exists>data. filter_data (derive mixed_case) [''BTC''] [1, 2] = Inr data \<and>
     map symbol data = [''btc'', ''BTC''] \<and>
     filter_data data [''BTC''] [1, 2] = Inr data"
  using filter_idempotent [of "[1, 2]" "derive mixed_case" "[''BTC'']"]
  by (simp add: example_simps mixed_case_def str_upper_examples dt_date_def filter_data_def)

lemma no_match_empty:
  assumes "\<forall>r\<in>set df. str_upper (symbol r) \<notin> str_upper ` set S" and "date_range \<noteq> []"
  shows "filter_data df S date_range = Inr []"
  using assms by (cases date_range) (simp_all add: filter_data_def)

text \<open>
  C4. When the filter returns no rows the pass ends at \<open>st.stop()\<close> with the warning as its
  only output: no metric card, chart or table is drawn.
\<close>

theorem empty_result_halts:
  assumes "filter_data df S date_range = Inr []"
  shows "\<exists>ws. render_pass df S date_range = Stopped ws \<and>
     ws = [Warning ''No data for selected filters.''] \<and> filter is_view ws = []"
  using assms by (simp add: render_pass_def)

theorem empty_result_halts_witness:
  "filter_data (derive mixed_case) [''ZZZ''] [1, 2] = Inr [] \<and>
   render_pass (derive mixed_case) [''ZZZ''] [1, 2] =
     Stopped [Warning ''No data for selected filters.'']"
proof -
  have e: "filter_data (derive mixed_case) [''ZZZ''] [1, 2] = Inr []"
    by (rule no_match_empty) (simp_all add: example_simps mixed_case_def str_upper_examples)
  from empty_result_halts [OF e] e show ?thesis by simp
qed

section \<open>Properties of the Aggregator\<close>

lemma latest_eq:
  "latest data =
     map (\<lambda>k. (k, last (filter (\<lambda>r. symbol r = k) data))) (sort (remdups (map symbol data)))"
  by (simp add: latest_def groupby_symbol_def comp_def)

lemma latest_keys: "map fst (latest data) = sort (remdups (map symbol data))"
  by (simp add: latest_eq comp_def)

lemma distinct_latest_keys: "distinct (map fst (latest data))"
  by (simp add: latest_keys)

lemma set_latest_keys: "set (map fst (latest data)) = symbol ` set data"
  by (simp add: latest_keys)

lemma latest_entry:
  "(k, r) \<in> set (latest data) \<longleftrightarrow>
     k \<in> symbol ` set data \<and> r = last (filter (\<lambda>x. symbol x = k) data)"
  by (auto simp: latest_eq)

lemma group_nonempty:
  assumes "k \<in> symbol ` set data"
  shows "filter (\<lambda>x. symbol x = k) data \<noteq> []"
  using assms by (auto simp: filter_empty_conv)

lemma last_group_in:
  assumes "k \<in> symbol ` set data"
  shows "last (filter (\<lambda>x. symbol x = k) data) \<in> set data \<and>
     symbol (last (filter (\<lambda>x. symbol x = k) data)) = k"
proof -
  have "last (filter (\<lambda>x. symbol x = k) data) \<in> set (filter (\<lambda>x. symbol x = k) data)"
    using group_nonempty [OF assms] by (rule last_in_set)
  then show ?thesis by simp
qed

lemma sorted_last_max:
  assumes "sorted (map f xs)" and "x \<in> set xs"
  shows "f x \<le> f (last xs)"
  using assms
proof (induction xs)
  case Nil
  then show ?case by simp
next
  case (Cons y ys)
  then show ?case by (cases "ys = []") auto
qed

lemma last_group_greatest:
  assumes "sorted (map date data)" and "x \<in> set data" and "symbol x = k"
  shows "date x \<le> date (last (filter (\<lambda>x. symbol x = k) data))"
proof -
  have "sorted (map date (filter (\<lambda>x. symbol x = k) data))"
    using assms(1) by (rule sorted_filter)
  moreover have "x \<in> set (filter (\<lambda>x. symbol x = k) data)"
    using assms by simp
  ultimately show ?thesis by (rule sorted_last_max)
qed

lemma filter_is_metric_cards: "filter is_metric (metric_cards data) = metric_cards data"
  by (simp add: metric_cards_def filter_map comp_def split_def)

lemma filter_is_metric_candlesticks: "filter is_metric (candlesticks data) = []"
  by (simp add: candlesticks_def filter_map comp_def)

lemma metrics_of_render_views: "filter is_metric (render_views data) = metric_cards data"
  by (simp add: render_views_def filter_is_metric_cards filter_is_metric_candlesticks)

text \<open>
  C5. For a non-empty filtered table sorted by date, \<open>latest\<close> has one entry per distinct
  symbol, in ascending order of the symbol; the entry's row is the last row of that symbol
  in the table, and no row of that symbol has a later date. The metric cards of the page
  are made from the first four entries, so there are at most four.
\<close>

theorem latest_per_symbol:
  assumes "sorted (map date data)" and "data \<noteq> []"
  shows "latest data \<noteq> [] \<and>
     map fst (latest data) = sort (remdups (map symbol data)) \<and>
     distinct (map fst (latest data)) \<and>
     set (map fst (latest data)) = symbol ` set data \<and>
     (\<forall>(k, r)\<in>set (latest data).
        r \<in> set data \<and> symbol r = k \<and> r = last (filter (\<lambda>x. symbol x = k) data) \<and>
        (\<forall>x\<in>set data. symbol x = k \<longrightarrow> date x \<le> date r)) \<and>
     filter is_metric (render_views data) =
       map (\<lambda>(s, row). Metric (str_upper s) (close row) (change_pct row)) (take 4 (latest data)) \<and>
     length (filter is_metric (render_views data)) = min 4 (length (latest data)) \<and>
     length (filter is_metric (render_views data)) \<le> 4"
proof -
  have ne: "latest data \<noteq> []"
  proof
    assume "latest data = []"
    then have "set (map fst (latest data)) = {}" by simp
    then have "symbol ` set data = {}" by (simp only: set_latest_keys)
    with assms(2) show False by simp
  qed
  have rows: "\<forall>(k, r)\<in>set (latest data).
        r \<in> set data \<and> symbol r = k \<and> r = last (filter (\<lambda>x. symbol x = k) data) \<and>
        (\<forall>x\<in>set data. symbol x = k \<longrightarrow> date x \<le> date r)"
  proof (clarify, intro conjI ballI impI)
    fix k r x
    assume kr: "(k, r) \<in> set (latest data)"
    then have k: "k \<in> symbol ` set data"
      and r: "r = last (filter (\<lambda>x. symbol x = k) data)"
      by (simp_all add: latest_entry)
    from last_group_in [OF k] r show "r \<in> set data" and "symbol r = k" by simp_all
    from r show "r = last (filter (\<lambda>x. symbol x = k) data)" .
    assume "x \<in> set data" and "symbol x = k"
    with assms(1) show "date x \<le> date r"
      unfolding r by (rule last_group_greatest)
  qed
  have cards: "filter is_metric (render_views data) =
       map (\<lambda>(s, row). Metric (str_upper s) (close row) (change_pct row)) (take 4 (latest data))"
    by (simp add: metrics_of_render_views metric_cards_def)
  have len: "length (filter is_metric (render_views data)) = min 4 (length (latest data))"
    by (simp add: cards)
  from ne rows cards len show ?thesis
    by (simp add: latest_keys)
qed

lemma latest_mixed_case:
  "map (\<lambda>(k, r). (k, symbol r, dt_date (date r), close r)) (latest (derive mixed_case)) =
     [(''BTC'', ''BTC'', 2, 105), (''ETH'', ''ETH'', 2, 50), (''btc'', ''btc'', 1, 100)]"
  by (simp add: example_simps mixed_case_def latest_def groupby_symbol_def dt_date_def)

theorem latest_per_symbol_witness:
  "sorted (map date (derive mixed_case)) \<and> derive mixed_case \<noteq> [] \<and>
   map fst (latest (derive mixed_case)) = [''BTC'', ''ETH'', ''btc''] \<and>
   map (\<lambda>(k, r). (k, symbol r, dt_date (date r), close r)) (latest (derive mixed_case)) =
     [(''BTC'', ''BTC'', 2, 105), (''ETH'', ''ETH'', 2, 50), (''btc'', ''btc'', 1, 100)] \<and>
   length (filter is_metric (render_views (derive mixed_case))) = 3"
proof -
  have s: "sorted (map date (derive mixed_case))"
    by (simp add: example_simps mixed_case_def)
  have n: "derive mixed_case \<noteq> []"
    by (simp add: example_simps mixed_case_def)
  have k: "sort (remdups (map symbol (derive mixed_case))) = [''BTC'', ''ETH'', ''btc'']"
    by (simp add: example_simps mixed_case_def)
  from latest_per_symbol [OF s n] have
    "map fst (latest (derive mixed_case)) = sort (remdups (map symbol (derive mixed_case)))"
    and "length (filter is_metric (render_views (derive mixed_case))) =
      min 4 (length (latest (derive mixed_case)))"
    by simp_all
  moreover have "length (latest (derive mixed_case)) = 3"
    using latest_mixed_case [THEN arg_cong, of length] by simp
  ultimately show ?thesis using s n k latest_mixed_case by simp
qed

text \<open>
  C9. Two rows whose symbols differ only in letter case are two groups of the aggregate,
  each with its own latest row, although one candlestick chart holds both and the filter
  for their upper-cased symbol keeps both.
\<close>

theorem aggregator_case_sensitive:
  assumes "r1 \<in> set data" and "r2 \<in> set data"
    and "symbol r1 \<noteq> symbol r2" and "str_upper (symbol r1) = str_upper (symbol r2)"
  shows "(symbol r1, last (filter (\<lambda>x. symbol x = symbol r1) data)) \<in> set (latest data) \<and>
     (symbol r2, last (filter (\<lambda>x. symbol x = symbol r2) data)) \<in> set (latest data) \<and>
     symbol (last (filter (\<lambda>x. symbol x = symbol r1) data)) = symbol r1 \<and>
     symbol (last (filter (\<lambda>x. symbol x = symbol r2) data)) = symbol r2 \<and>
     distinct (map fst (latest data)) \<and> 2 \<le> length (latest data) \<and>
     r1 \<in> set (filter (\<lambda>x. str_upper (symbol x) = str_upper (symbol r1)) data) \<and>
     r2 \<in> set (filter (\<lambda>x. str_upper (symbol x) = str_upper (symbol r1)) data) \<and>
     (\<forall>a. a \<le> dt_date (date r1) \<and> a \<le> dt_date (date r2) \<longrightarrow>
        (\<exists>out. filter_data data [str_upper (symbol r1)] [a] = Inr out \<and>
           r1 \<in> set out \<and> r2 \<in> set out))"
proof -
  from assms(1) have k1: "symbol r1 \<in> symbol ` set data" by simp
  from assms(2) have k2: "symbol r2 \<in> symbol ` set data" by simp
  have e1: "(symbol r1, last (filter (\<lambda>x. symbol x = symbol r1) data)) \<in> set (latest data)"
    using k1 by (simp add: latest_entry)
  have e2: "(symbol r2, last (filter (\<lambda>x. symbol x = symbol r2) data)) \<in> set (latest data)"
    using k2 by (simp add: latest_entry)
  have "{symbol r1, symbol r2} \<subseteq> set (map fst (latest data))"
    using k1 k2 by (simp only: set_latest_keys) simp
  then have "card {symbol r1, symbol r2} \<le> card (set (map fst (latest data)))"
    by (intro card_mono) simp_all
  also have "\<dots> = length (map fst (latest data))"
    using distinct_latest_keys by (rule distinct_card)
  finally have two: "2 \<le> length (latest data)"
    using assms(3) by simp
  have f: "filter_data data [str_upper (symbol r1)] [a] = Inr out \<Longrightarrow>
      a \<le> dt_date (date r1) \<and> a \<le> dt_date (date r2) \<Longrightarrow> r1 \<in> set out \<and> r2 \<in> set out"
    for a out
    using assms by (auto simp: filter_data_one str_upper_idem)
  from e1 e2 last_group_in [OF k1] last_group_in [OF k2] distinct_latest_keys two assms f
  show ?thesis by (simp add: filter_data_one)
qed

theorem aggregator_case_sensitive_witness:
  "map symbol (derive mixed_case) = [''btc'', ''BTC'', ''ETH''] \<and>
   str_upper ''btc'' = str_upper ''BTC'' \<and>
   map fst (latest (derive mixed_case)) = [''BTC'', ''ETH'', ''btc''] \<and>
   (''btc'', last (filter (\<lambda>x. symbol x = ''btc'') (derive mixed_case)))
     \<in> set (latest (derive mixed_case)) \<and>
   (''BTC'', last (filter (\<lambda>x. symbol x = ''BTC'') (derive mixed_case)))
     \<in> set (latest (derive mixed_case))"
proof -
  have d: "map symbol (derive mixed_case) = [''btc'', ''BTC'', ''ETH'']"
    by (simp add: example_simps mixed_case_def)
  have l: "length (derive mixed_case) = 3"
    by (simp add: length_derive mixed_case_def)
  have s0: "symbol (derive mixed_case ! 0) = ''btc''" and s1: "symbol (derive mixed_case ! Suc 0) = ''BTC''"
    using d [THEN arg_cong, of "\<lambda>xs. xs ! 0"] d [THEN arg_cong, of "\<lambda>xs. xs ! Suc 0"] l by simp_all
  have m0: "derive mixed_case ! 0 \<in> set (derive mixed_case)"
    and m1: "derive mixed_case ! Suc 0 \<in> set (derive mixed_case)"
    using l by simp_all
  have ne: "symbol (derive mixed_case ! 0) \<noteq> symbol (derive mixed_case ! Suc 0)"
    by (simp add: s0 s1)
  have up: "str_upper (symbol (derive mixed_case ! 0)) = str_upper (symbol (derive mixed_case ! Suc 0))"
    by (simp add: s0 s1 str_upper_examples)
  from aggregator_case_sensitive [OF m0 m1 ne up] d
  show ?thesis
    by (simp add: s0 s1 str_upper_examples latest_keys del: sort_key_simps)
      (simp add: sort_key_simps)
qed

section \<open>The export\<close>

lemma download_in_views:
  "DownloadButton ''Download filtered data as CSV'' (to_csv data)
     ''crypto_price_data.csv'' ''text/csv'' \<in> set (render_views data)"
  by (simp add: render_views_def)

text \<open>
  C6, as the code has it. The download button of a finished pass offers the filtered table
  as CSV under the name \<open>crypto_price_data.csv\<close> with MIME type \<open>text/csv\<close>; its columns
  are the eight input columns followed by the four derived columns.
\<close>

theorem export_columns:
  assumes "filter_data df S date_range = Inr data" and "data \<noteq> []"
  shows "\<exists>ws. render_pass df S date_range = Finished ws \<and>
     DownloadButton ''Download filtered data as CSV'' (to_csv data)
       ''crypto_price_data.csv'' ''text/csv'' \<in> set ws \<and>
     header (to_csv data) =
       input_columns @ [''change_pct'', ''volatility_7d'', ''high_low_range'', ''typical_price''] \<and>
     length (body (to_csv data)) = length data \<and>
     (\<forall>cells\<in>set (body (to_csv data)). length cells = length (header (to_csv data)))"
proof -
  from assms have r: "render_pass df S date_range = Finished (render_views data)"
    by (simp add: render_pass_def)
  have h: "header (to_csv data) =
       input_columns @ [''change_pct'', ''volatility_7d'', ''high_low_range'', ''typical_price'']"
    by (simp add: to_csv_def frame_columns_def)
  have b: "length (body (to_csv data)) = length data"
    by (simp add: to_csv_def)
  have c: "\<forall>cells\<in>set (body (to_csv data)). length cells = length (header (to_csv data))"
    by (auto simp: to_csv_def frame_columns_def input_columns_def csv_cells_def)
  from r download_in_views [of data] h b c show ?thesis by blast
qed

theorem export_columns_witness:
  "\<exists>data. filter_data (derive mixed_case) [''ETH''] [1, 2] = Inr data \<and>
     map symbol data = [''ETH''] \<and>
     render_pass (derive mixed_case) [''ETH''] [1, 2] = Finished (render_views data) \<and>
     DownloadButton ''Download filtered data as CSV'' (to_csv data)
       ''crypto_price_data.csv'' ''text/csv'' \<in> set (render_views data) \<and>
     length (header (to_csv data)) = 12 \<and> map length (body (to_csv data)) = [12]"
proof -
  obtain data where d: "filter_data (derive mixed_case) [''ETH''] [1, 2] = Inr data"
    by (simp add: filter_data_two)
  then have s: "map symbol data = [''ETH'']"
    by (auto simp: filter_data_two example_simps mixed_case_def str_upper_examples dt_date_def)
  then have n: "data \<noteq> []" by auto
  from s have l: "length data = 1" using length_map [of symbol data] by simp
  from export_columns [OF d n] d s n l show ?thesis
    by (auto simp: render_pass_def input_columns_def to_csv_def csv_cells_def
        download_in_views length_Suc_conv)
qed

text \<open>
  C6 as stated fails: the exported header is not the input's column set, it has
  \<open>change_pct\<close>, \<open>volatility_7d\<close>, \<open>high_low_range\<close> and \<open>typical_price\<close> as well.
\<close>

theorem export_columns_counterexample:
  "header (to_csv (derive (from_closes [100, 110, 99]))) =
     [''coin_id'', ''symbol'', ''timestamp'', ''date'', ''open'', ''high'', ''low'', ''close'',
      ''change_pct'', ''volatility_7d'', ''high_low_range'', ''typical_price''] \<and>
   set (header (to_csv (derive (from_closes [100, 110, 99])))) \<noteq> set input_columns \<and>
   DownloadButton ''Download filtered data as CSV'' (to_csv (derive (from_closes [100, 110, 99])))
     ''crypto_price_data.csv'' ''text/csv'' \<in> set (render_views (derive (from_closes [100, 110, 99])))"
proof -
  have "''change_pct'' \<in> set (header (to_csv (derive (from_closes [100, 110, 99]))))"
    by (simp add: to_csv_def frame_columns_def)
  moreover have "''change_pct'' \<notin> set input_columns"
    by (simp add: input_columns_def)
  ultimately have "set (header (to_csv (derive (from_closes [100, 110, 99])))) \<noteq> set input_columns"
    by blast
  then show ?thesis
    by (simp add: download_in_views) (simp add: to_csv_def frame_columns_def input_columns_def)
qed

end
